theory Spec2Isabelle
  imports Complex_Main "HOL-Library.Sublist" "HOL-Library.Product_Lexorder"
begin

section \<open>Values\<close>

text \<open>
  A float column holds a finite number, an infinity or NaN (pandas' missing value).
  Finite arithmetic is taken over the reals: rounding is not modelled, and neither is the
  sign of zero. The special values follow IEEE 754 as numpy applies them to a column:
  a non-zero number divided by zero is an infinity, \<open>0 / 0\<close> is NaN, and NaN is absorbing.
\<close>

datatype fl = NaN | PInf | NInf | Fin real

fun fneg :: "fl \<Rightarrow> fl" where
  "fneg NaN = NaN"
| "fneg PInf = NInf"
| "fneg NInf = PInf"
| "fneg (Fin a) = Fin (- a)"

fun fadd :: "fl \<Rightarrow> fl \<Rightarrow> fl" where
  "fadd (Fin a) (Fin b) = Fin (a + b)"
| "fadd NaN _ = NaN"
| "fadd _ NaN = NaN"
| "fadd PInf NInf = NaN"
| "fadd NInf PInf = NaN"
| "fadd PInf _ = PInf"
| "fadd _ PInf = PInf"
| "fadd NInf _ = NInf"
| "fadd _ NInf = NInf"

definition fsub :: "fl \<Rightarrow> fl \<Rightarrow> fl" where
  "fsub a b = fadd a (fneg b)"

text \<open>The sign of a column value: \<open>None\<close> for NaN.\<close>

fun fsign :: "fl \<Rightarrow> int option" where
  "fsign NaN = None"
| "fsign PInf = Some 1"
| "fsign NInf = Some (- 1)"
| "fsign (Fin a) = Some (if a < 0 then - 1 else if a = 0 then 0 else 1)"

definition inf_of_sign :: "int \<Rightarrow> fl" where
  "inf_of_sign s = (if s = 0 then NaN else if s < 0 then NInf else PInf)"

fun fmul :: "fl \<Rightarrow> fl \<Rightarrow> fl" where
  "fmul (Fin a) (Fin b) = Fin (a * b)"
| "fmul a b =
     (case (fsign a, fsign b) of
        (Some s, Some t) \<Rightarrow> inf_of_sign (s * t)
      | _ \<Rightarrow> NaN)"

fun fdiv :: "fl \<Rightarrow> fl \<Rightarrow> fl" where
  "fdiv (Fin a) (Fin b) =
     (if b = 0 then (if a = 0 then NaN else if a < 0 then NInf else PInf)
      else Fin (a / b))"
| "fdiv NaN _ = NaN"
| "fdiv _ NaN = NaN"
| "fdiv (Fin a) _ = Fin 0"
| "fdiv a (Fin b) = (if b < 0 then fneg a else a)"
| "fdiv _ _ = NaN"

text \<open>\<open>Series.fillna(0)\<close>: only NaN is replaced; an infinity is a value and stays.\<close>

fun fillna0 :: "fl \<Rightarrow> fl" where
  "fillna0 NaN = Fin 0"
| "fillna0 x = x"

text \<open>A nullable real column cell read as a float.\<close>

fun of_cell :: "real option \<Rightarrow> fl" where
  "of_cell None = NaN"
| "of_cell (Some x) = Fin x"

text \<open>
  A calendar date as (year, month, day), ordered lexicographically, which is the
  chronological order. The \<open>Date\<close> column of the input file is written by the extraction
  step from parsed timestamps, so every row carries a date in one canonical form and two
  cells are equal exactly when the dates are.
\<close>

type_synonym date = "nat \<times> nat \<times> nat"

text \<open>\<open>pd.to_datetime(df['Date']).dt.strftime('%Y%m%d').astype(int)\<close>\<close>

fun date_id :: "date \<Rightarrow> nat" where
  "date_id (y, m, d) = y * 10000 + m * 100 + d"

section \<open>Rows\<close>

text \<open>
  The columns of the extracted file. A numeric cell of the raw file may be empty
  (\<open>'p = real option\<close>, \<open>'v = int option\<close>); after \<open>fillna\<close> and \<open>astype\<close> it is a number.
  Symbol, CompanyName and Date are present in every row, and every numeric cell that is
  present parses as a finite number, so no step of \<open>transform_data\<close> raises on such a file.
\<close>

record ('p, 'v) tick =
  Symbol :: string
  CompanyName :: string
  Date :: date
  OpenPrice :: 'p
  High :: 'p
  Low :: 'p
  ClosePrice :: 'p
  Volume :: 'v

type_synonym raw_row = "(real option, int option) tick"

record id_row = "(real, int) tick" +
  RecordID :: string
  CompanyID :: "nat option"
  DateID :: nat

text \<open>The twelve columns of \<open>transformed_df\<close>, the file \<open>transform_data\<close> writes.\<close>

record out_row = id_row +
  DailyReturn :: fl

text \<open>The working frame of \<open>transform_data\<close> before the column selection.\<close>

record df_row = out_row +
  PreviousClosePrice :: "real option"

section \<open>Grouped window operations\<close>

text \<open>
  \<open>df.groupby(key)[col].shift / rolling / pct_change\<close>: the frame is walked in row order;
  each row sees the values of its own group up to and including itself, most recent first.
  A row whose key is null belongs to no group and gets a missing value.
  \<open>seen\<close> holds the rows already passed, most recent first.
\<close>

fun groupby_window ::
  "('v list \<Rightarrow> 'r option) \<Rightarrow> ('k option \<times> 'v) list \<Rightarrow> ('k option \<times> 'v) list
     \<Rightarrow> 'r option list" where
  "groupby_window f seen [] = []"
| "groupby_window f seen ((k, v) # xs) =
     (case k of
        None \<Rightarrow> None
      | Some _ \<Rightarrow> f (v # map snd (filter (\<lambda>(k', _). k' = k) seen)))
     # groupby_window f ((k, v) # seen) xs"

text \<open>\<open>shift(n)\<close> and the base value of \<open>pct_change(periods=n)\<close>: the value \<open>n\<close> rows back.\<close>

definition shifted :: "nat \<Rightarrow> 'v list \<Rightarrow> 'v option" where
  "shifted n h = (if n < length h then Some (h ! n) else None)"

text \<open>\<open>rolling(window=w).mean()\<close>: \<open>min_periods\<close> defaults to the window size.\<close>

definition rolling_mean :: "nat \<Rightarrow> real list \<Rightarrow> real option" where
  "rolling_mean w h = (if w \<le> length h then Some (sum_list (take w h) / real w) else None)"

section \<open>Normalisation: \<open>transform2.py\<close>\<close>

definition COMPANY_ID_MAP :: "(string \<times> nat) list" where
  "COMPANY_ID_MAP =
     [(''Apple Inc.'', 1), (''Microsoft Corp.'', 2), (''Alphabet Inc.'', 3),
      (''Amazon.com Inc.'', 4), (''Netflix Inc.'', 5)]"

definition map_company_id :: "string \<Rightarrow> nat option" where
  "map_company_id company_name = map_of COMPANY_ID_MAP company_name"

text \<open>
  \<open>if last_processed_date: df = df[df['Date'] > pd.to_datetime(last_processed_date)]\<close>.
  The watermark is the \<open>MAX\<close> of a \<open>DATE\<close> column: \<open>None\<close> or a date, and a date is truthy.
\<close>

fun filter_watermark :: "date option \<Rightarrow> ('p, 'v) tick list \<Rightarrow> ('p, 'v) tick list" where
  "filter_watermark None df = df"
| "filter_watermark (Some w) df = filter (\<lambda>r. w < Date r) df"

definition fill_missing :: "raw_row \<Rightarrow> (real, int) tick" where
  "fill_missing r =
     \<lparr>Symbol = Symbol r, CompanyName = CompanyName r, Date = Date r,
      OpenPrice = (case OpenPrice r of None \<Rightarrow> 0 | Some x \<Rightarrow> x),
      High = (case High r of None \<Rightarrow> 0 | Some x \<Rightarrow> x),
      Low = (case Low r of None \<Rightarrow> 0 | Some x \<Rightarrow> x),
      ClosePrice = (case ClosePrice r of None \<Rightarrow> 0 | Some x \<Rightarrow> x),
      Volume = (case Volume r of None \<Rightarrow> 0 | Some x \<Rightarrow> x)\<rparr>"

text \<open>
  \<open>generate_record_id\<close> draws a random UUID. The draws of one run are the function
  \<open>gen\<close>: \<open>gen i\<close> is the identifier drawn for the \<open>i\<close>-th row of the filtered frame.
\<close>

definition add_ids :: "string \<Rightarrow> (real, int) tick \<Rightarrow> id_row" where
  "add_ids rid r =
     tick.extend r (id_row.fields rid (map_company_id (CompanyName r)) (date_id (Date r)))"

text \<open>\<open>df.drop_duplicates(subset=..., keep='first')\<close>; \<open>seen\<close> holds the keys already kept.\<close>

fun drop_duplicates_from :: "('a \<Rightarrow> 'k) \<Rightarrow> 'k list \<Rightarrow> 'a list \<Rightarrow> 'a list" where
  "drop_duplicates_from key seen [] = []"
| "drop_duplicates_from key seen (x # xs) =
     (if key x \<in> set seen then drop_duplicates_from key seen xs
      else x # drop_duplicates_from key (key x # seen) xs)"

definition drop_duplicates :: "('a \<Rightarrow> 'k) \<Rightarrow> 'a list \<Rightarrow> 'a list" where
  "drop_duplicates key df = drop_duplicates_from key [] df"

text \<open>
  \<open>(df['ClosePrice'] - df['PreviousClosePrice']) / df['PreviousClosePrice']\<close>, then
  \<open>df['DailyReturn'].fillna(0, inplace=True)\<close>, which fills the column of the frame (as
  pandas does before version 3). A missing previous close makes the quotient NaN.
\<close>

definition daily_return :: "real \<Rightarrow> real option \<Rightarrow> fl" where
  "daily_return close prev = fillna0 (fdiv (fsub (Fin close) (of_cell prev)) (of_cell prev))"

definition add_return :: "id_row \<Rightarrow> real option \<Rightarrow> df_row" where
  "add_return r prev =
     out_row.extend
       (id_row.extend r (out_row.fields (daily_return (ClosePrice r) prev)))
       (df_row.fields prev)"

text \<open>The columns \<open>subset=['Symbol', 'Date']\<close> of \<open>drop_duplicates\<close>.\<close>

definition row_key :: "('p, 'v, 'z) tick_scheme \<Rightarrow> string \<times> date" where
  "row_key r = (Symbol r, Date r)"

text \<open>The frame after every step of \<open>transform_data\<close> but the column selection.\<close>

definition deduplicated :: "(nat \<Rightarrow> string) \<Rightarrow> date option \<Rightarrow> raw_row list \<Rightarrow> id_row list" where
  "deduplicated gen last_processed_date batch =
     (let df = filter_watermark last_processed_date batch;
          df = map fill_missing df;
          df = map (\<lambda>(i, r). add_ids (gen i) r) (enumerate 0 df)
      in drop_duplicates row_key df)"

definition transform_frame :: "(nat \<Rightarrow> string) \<Rightarrow> date option \<Rightarrow> raw_row list \<Rightarrow> df_row list" where
  "transform_frame gen last_processed_date batch =
     (let df = deduplicated gen last_processed_date batch;
          prev = groupby_window (shifted 1) [] (map (\<lambda>r. (Some (Symbol r), ClosePrice r)) df)
      in map (\<lambda>(r, p). add_return r p) (zip df prev))"

definition transform_data :: "(nat \<Rightarrow> string) \<Rightarrow> date option \<Rightarrow> raw_row list \<Rightarrow> out_row list" where
  "transform_data gen last_processed_date batch =
     map out_row.truncate (transform_frame gen last_processed_date batch)"

section \<open>Aggregation: \<open>aggregated2.py\<close>\<close>

subsection \<open>Group-by reductions\<close>

text \<open>
  \<open>df.groupby('CompanyID').agg(...)\<close>: one output row per distinct non-null key, keys in
  ascending order (\<open>sort=True\<close>), rows with a null key left out (\<open>dropna=True\<close>);
  each reduction is applied to the group's values in row order.
\<close>

definition group_keys :: "('k::linorder) option list \<Rightarrow> 'k list" where
  "group_keys ks = sort (remdups (List.map_filter (\<lambda>k. k) ks))"

definition group_values :: "'k option list \<Rightarrow> 'v list \<Rightarrow> 'k \<Rightarrow> 'v list" where
  "group_values ks vs k = map snd (filter (\<lambda>(k', _). k' = Some k) (zip ks vs))"

definition groupby_agg ::
  "('k::linorder) option list \<Rightarrow> 'v list \<Rightarrow> ('v list \<Rightarrow> 'r) \<Rightarrow> ('k \<times> 'r) list" where
  "groupby_agg ks vs agg = map (\<lambda>k. (k, agg (group_values ks vs k))) (group_keys ks)"

text \<open>
  \<open>'mean'\<close> skips NaN; the mean of no value is NaN. The sum runs over the group in row
  order, infinities included.
\<close>

definition mean :: "fl list \<Rightarrow> fl" where
  "mean xs =
     (let ys = filter (\<lambda>x. x \<noteq> NaN) xs
      in if ys = [] then NaN else fdiv (foldl fadd (Fin 0) ys) (Fin (real (length ys))))"

fun finite_values :: "fl list \<Rightarrow> real list option" where
  "finite_values [] = Some []"
| "finite_values (Fin a # xs) = map_option ((#) a) (finite_values xs)"
| "finite_values (_ # xs) = None"

text \<open>
  \<open>'std'\<close> is the sample standard deviation (\<open>ddof=1\<close>) of the non-NaN values: NaN when
  fewer than two values remain, and NaN when an infinity is among them.
\<close>

definition std :: "fl list \<Rightarrow> fl" where
  "std xs =
     (let ys = filter (\<lambda>x. x \<noteq> NaN) xs; n = length ys
      in if n < 2 then NaN
         else (case finite_values ys of
                 None \<Rightarrow> NaN
               | Some rs \<Rightarrow>
                   (let m = sum_list rs / real n
                    in Fin (sqrt (sum_list (map (\<lambda>r. (r - m)\<^sup>2) rs) / real (n - 1))))))"

text \<open>\<open>'last'\<close> of a column without NaN.\<close>

definition last_value :: "real list \<Rightarrow> fl" where
  "last_value xs = (if xs = [] then NaN else Fin (last xs))"

text \<open>
  \<open>left.merge(right, on='CompanyID', how='left')\<close>: the left rows in order, each paired with
  every right row of the same key, or with a missing value when there is none.
\<close>

definition merge_left :: "('k \<times> 'a) list \<Rightarrow> ('k \<times> 'b) list \<Rightarrow> ('k \<times> 'a \<times> 'b option) list" where
  "merge_left left right =
     concat (map (\<lambda>(k, a).
       (case map snd (filter (\<lambda>(k', _). k' = k) right) of
          [] \<Rightarrow> [(k, a, None)]
        | bs \<Rightarrow> map (\<lambda>b. (k, a, Some b)) bs)) left)"

subsection \<open>The row-level columns of \<open>aggregate_data\<close>\<close>

definition CompanyID_col :: "out_row list \<Rightarrow> nat option list" where
  "CompanyID_col df = map CompanyID df"

text \<open>\<open>transformed_data['DailyReturn'].fillna(0)\<close>: the column as read from the file.\<close>

definition DailyReturn_in :: "out_row list \<Rightarrow> fl list" where
  "DailyReturn_in df = map (\<lambda>r. fillna0 (DailyReturn r)) df"

definition AverageDailyPrice_col :: "out_row list \<Rightarrow> real list" where
  "AverageDailyPrice_col df = map (\<lambda>r. (OpenPrice r + ClosePrice r) / 2) df"

definition Volume_col :: "out_row list \<Rightarrow> int list" where
  "Volume_col df = map Volume df"

definition close_by_company :: "out_row list \<Rightarrow> (nat option \<times> real) list" where
  "close_by_company df = map (\<lambda>r. (CompanyID r, ClosePrice r)) df"

definition PreviousClosePrice_col :: "out_row list \<Rightarrow> real option list" where
  "PreviousClosePrice_col df = groupby_window (shifted 1) [] (close_by_company df)"

text \<open>Facet 3 overwrites the \<open>DailyReturn\<close> column with its own computation.\<close>

definition DailyReturn_col :: "out_row list \<Rightarrow> fl list" where
  "DailyReturn_col df =
     map (\<lambda>(r, p). daily_return (ClosePrice r) p) (zip df (PreviousClosePrice_col df))"

definition MovingAvg_col :: "nat \<Rightarrow> out_row list \<Rightarrow> real list" where
  "MovingAvg_col w df =
     map (\<lambda>m. case m of None \<Rightarrow> 0 | Some a \<Rightarrow> a)
       (groupby_window (rolling_mean w) [] (close_by_company df))"

text \<open>
  \<open>pct_change(periods=5) * 100\<close> is \<open>(close / close.shift(5) - 1) * 100\<close>. The close
  column of the transformed file has no missing cell, so the forward fill that older
  versions of \<open>pct_change\<close> apply first changes nothing.
\<close>

definition pct_change :: "nat \<Rightarrow> real list \<Rightarrow> fl option" where
  "pct_change n h =
     (case h of
        [] \<Rightarrow> None
      | c # _ \<Rightarrow> Some (fsub (fdiv (Fin c) (of_cell (shifted n h))) (Fin 1)))"

definition Trend_col :: "out_row list \<Rightarrow> fl list" where
  "Trend_col df =
     map (\<lambda>t. fillna0 (fmul (case t of None \<Rightarrow> NaN | Some x \<Rightarrow> x) (Fin 100)))
       (groupby_window (pct_change 5) [] (close_by_company df))"

definition HighLowRatio_col :: "out_row list \<Rightarrow> fl list" where
  "HighLowRatio_col df = map (\<lambda>r. fillna0 (fdiv (Fin (High r)) (Fin (Low r)))) df"

subsection \<open>The eight facets\<close>

definition company_performance_summary :: "out_row list \<Rightarrow> (nat \<times> fl \<times> int \<times> fl) list" where
  "company_performance_summary df =
     groupby_agg (CompanyID_col df)
       (zip (AverageDailyPrice_col df) (zip (Volume_col df) (DailyReturn_in df)))
       (\<lambda>g. (mean (map (\<lambda>(a, _). Fin a) g), sum_list (map (\<lambda>(_, v, _). v) g),
             mean (map (\<lambda>(_, _, d). d) g)))"

definition total_trading_volume :: "out_row list \<Rightarrow> (nat \<times> int) list" where
  "total_trading_volume df = groupby_agg (CompanyID_col df) (Volume_col df) sum_list"

definition daily_returns :: "out_row list \<Rightarrow> (nat \<times> fl) list" where
  "daily_returns df = groupby_agg (CompanyID_col df) (DailyReturn_col df) mean"

definition volatility_index :: "out_row list \<Rightarrow> (nat \<times> fl) list" where
  "volatility_index df = groupby_agg (CompanyID_col df) (DailyReturn_col df) std"

definition moving_averages :: "out_row list \<Rightarrow> (nat \<times> fl \<times> fl) list" where
  "moving_averages df =
     groupby_agg (CompanyID_col df) (zip (MovingAvg_col 5 df) (MovingAvg_col 10 df))
       (\<lambda>g. (last_value (map fst g), last_value (map snd g)))"

definition trend_analysis :: "out_row list \<Rightarrow> (nat \<times> fl) list" where
  "trend_analysis df = groupby_agg (CompanyID_col df) (Trend_col df) mean"

definition high_low_ratios :: "out_row list \<Rightarrow> (nat \<times> fl) list" where
  "high_low_ratios df = groupby_agg (CompanyID_col df) (HighLowRatio_col df) mean"

definition volume_analysis :: "out_row list \<Rightarrow> (nat \<times> fl) list" where
  "volume_analysis df =
     groupby_agg (CompanyID_col df) (Volume_col df) (\<lambda>g. mean (map (\<lambda>v. Fin (real_of_int v)) g))"

subsection \<open>The merge\<close>

text \<open>
  The left-join chain. A facet value that found no partner is \<open>None\<close>; in the data frame
  it is a missing cell.
\<close>

type_synonym joined =
  "((((((((fl \<times> int \<times> fl) \<times> int option) \<times> fl option) \<times> fl option) \<times> (fl \<times> fl) option)
      \<times> fl option) \<times> fl option) \<times> fl option)"

definition merged :: "out_row list \<Rightarrow> (nat \<times> joined) list" where
  "merged df =
     (let aggregated_data = merge_left (company_performance_summary df) (total_trading_volume df);
          aggregated_data = merge_left aggregated_data (daily_returns df);
          aggregated_data = merge_left aggregated_data (volatility_index df);
          aggregated_data = merge_left aggregated_data (moving_averages df);
          aggregated_data = merge_left aggregated_data (trend_analysis df);
          aggregated_data = merge_left aggregated_data (high_low_ratios df)
      in merge_left aggregated_data (volume_analysis df))"

text \<open>
  The columns of the merged frame beside \<open>CompanyID\<close>. The two \<open>DailyReturn\<close> columns get
  the suffixes \<open>_x\<close> (facet 1) and \<open>_y\<close> (facet 3) from \<open>merge\<close>.
\<close>

record agg_row =
  AverageDailyPrice :: fl
  TotalVolume :: int
  DailyReturn_x :: fl
  TotalTradingVolume :: "int option"
  DailyReturn_y :: fl
  VolatilityIndex :: fl
  MovingAvg5Day :: fl
  MovingAvg10Day :: fl
  TrendAnalysis :: fl
  HighLowRatio :: fl
  AverageVolume :: fl

fun cell :: "fl option \<Rightarrow> fl" where
  "cell None = NaN"
| "cell (Some x) = x"

fun to_agg_row :: "joined \<Rightarrow> agg_row" where
  "to_agg_row ((((((((adp, tv, dr), ttv), dr'), vol), ma), tr), hl), av) =
     \<lparr>AverageDailyPrice = adp, TotalVolume = tv, DailyReturn_x = dr,
      TotalTradingVolume = ttv, DailyReturn_y = cell dr', VolatilityIndex = cell vol,
      MovingAvg5Day = cell (map_option fst ma), MovingAvg10Day = cell (map_option snd ma),
      TrendAnalysis = cell tr, HighLowRatio = cell hl, AverageVolume = cell av\<rparr>"

definition aggregate_data :: "out_row list \<Rightarrow> (nat \<times> agg_row) list" where
  "aggregate_data transformed_data =
     map (\<lambda>(k, j). (k, to_agg_row j)) (merged transformed_data)"

section \<open>Notions the properties are stated with\<close>

text \<open>Every column of an output row but \<open>RecordID\<close>, which is blanked.\<close>

definition without_RecordID :: "out_row \<Rightarrow> out_row" where
  "without_RecordID r = r\<lparr>RecordID := []\<rparr>"





text \<open>
  A symbol's partition: its rows, and its rows in ascending date order.
\<close>

definition symbol_rows :: "string \<Rightarrow> ('p, 'v, 'z) tick_scheme list \<Rightarrow> ('p, 'v, 'z) tick_scheme list" where
  "symbol_rows s df = filter (\<lambda>r. Symbol r = s) df"

definition symbol_partition :: "string \<Rightarrow> df_row list \<Rightarrow> df_row list" where
  "symbol_partition s df = sort_key Date (symbol_rows s df)"

text \<open>The rows of one company, and the reductions of the eight facets over them.\<close>

definition company_rows :: "out_row list \<Rightarrow> nat \<Rightarrow> out_row list" where
  "company_rows df k = filter (\<lambda>r. CompanyID r = Some k) df"

definition company_joined :: "out_row list \<Rightarrow> joined" where
  "company_joined g =
     ((((((((mean (map Fin (AverageDailyPrice_col g)), sum_list (Volume_col g), mean (DailyReturn_in g)),
            Some (sum_list (Volume_col g))),
           Some (mean (DailyReturn_col g))),
          Some (std (DailyReturn_col g))),
         Some (last_value (MovingAvg_col 5 g), last_value (MovingAvg_col 10 g))),
        Some (mean (Trend_col g))),
       Some (mean (HighLowRatio_col g))),
      Some (mean (map (\<lambda>v. Fin (real_of_int v)) (Volume_col g))))"

text \<open>Every facet found its partner in the join: no cell of the merged row is missing.\<close>

fun joined_complete :: "joined \<Rightarrow> bool" where
  "joined_complete ((((((((_, Some _), Some _), Some _), Some _), Some _), Some _), Some _)) = True"
| "joined_complete _ = False"

text \<open>The rows whose company name resolved to an identifier.\<close>

definition resolved :: "out_row list \<Rightarrow> out_row list" where
  "resolved df = filter (\<lambda>r. CompanyID r \<noteq> None) df"

text \<open>The rows of the same company that stand before row \<open>i\<close> in the frame.\<close>

definition earlier_rows :: "out_row list \<Rightarrow> nat \<Rightarrow> out_row list" where
  "earlier_rows df i = filter (\<lambda>r. CompanyID r = CompanyID (df ! i)) (take i df)"

text \<open>
  Every company the mapping resolves is listed under one symbol, and that symbol is carried
  by no row of another company or of a company the mapping does not resolve.
\<close>

definition one_symbol_per_company :: "raw_row list \<Rightarrow> bool" where
  "one_symbol_per_company batch =
     (\<forall>r \<in> set batch. \<forall>r' \<in> set batch.
        map_company_id (CompanyName r) \<noteq> None \<longrightarrow>
          (Symbol r' = Symbol r) = (map_company_id (CompanyName r') = map_company_id (CompanyName r)))"

section \<open>Sample batches\<close>

definition uuid0 :: "nat \<Rightarrow> string" where
  "uuid0 i = ''00000000-0000-4000-8000-000000000000''"

definition uuid1 :: "nat \<Rightarrow> string" where
  "uuid1 i = replicate (Suc i) CHR ''f''"

definition raw :: "string \<Rightarrow> string \<Rightarrow> date \<Rightarrow> real option \<Rightarrow> raw_row" where
  "raw s c d p =
     \<lparr>Symbol = s, CompanyName = c, Date = d, OpenPrice = p, High = p, Low = p,
      ClosePrice = p, Volume = Some 10\<rparr>"

text \<open>One symbol, the second day delivered twice.\<close>

definition batch_dup :: "raw_row list" where
  "batch_dup =
     [raw ''AAPL'' ''Apple Inc.'' (2024, 1, 2) (Some 100),
      raw ''AAPL'' ''Apple Inc.'' (2024, 1, 3) (Some 110),
      raw ''AAPL'' ''Apple Inc.'' (2024, 1, 3) (Some 120)]"

text \<open>One symbol, most recent day first, as the provider lists a series.\<close>

definition batch_desc :: "raw_row list" where
  "batch_desc =
     [raw ''AAPL'' ''Apple Inc.'' (2024, 1, 3) (Some 110),
      raw ''AAPL'' ''Apple Inc.'' (2024, 1, 2) (Some 100)]"

text \<open>One symbol; the first day's close is missing from the file.\<close>

definition batch_zero :: "raw_row list" where
  "batch_zero =
     [raw ''AAPL'' ''Apple Inc.'' (2024, 1, 2) None,
      raw ''AAPL'' ''Apple Inc.'' (2024, 1, 3) (Some 5)]"

text \<open>Two known companies and one that \<open>COMPANY_ID_MAP\<close> does not list.\<close>

definition batch_unknown :: "raw_row list" where
  "batch_unknown =
     [raw ''AAPL'' ''Apple Inc.'' (2024, 1, 2) (Some 100),
      raw ''TSLA'' ''Tesla Inc.'' (2024, 1, 2) (Some 200),
      raw ''MSFT'' ''Microsoft Corp.'' (2024, 1, 2) (Some 300),
      raw ''AAPL'' ''Apple Inc.'' (2024, 1, 3) (Some 110)]"

text \<open>An incremental run: one new day for one company.\<close>

definition single_day :: "out_row list" where
  "single_day = transform_data uuid0 (Some (2024, 1, 2)) batch_dup"

text \<open>A company listed under two symbols, three days each.\<close>

definition batch_alphabet :: "raw_row list" where
  "batch_alphabet =
     [raw ''GOOG'' ''Alphabet Inc.'' (2024, 1, 2) (Some 100),
      raw ''GOOG'' ''Alphabet Inc.'' (2024, 1, 3) (Some 101),
      raw ''GOOG'' ''Alphabet Inc.'' (2024, 1, 4) (Some 102),
      raw ''GOOGL'' ''Alphabet Inc.'' (2024, 1, 2) (Some 103),
      raw ''GOOGL'' ''Alphabet Inc.'' (2024, 1, 3) (Some 104),
      raw ''GOOGL'' ''Alphabet Inc.'' (2024, 1, 4) (Some 105)]"

definition alphabet_frame :: "out_row list" where
  "alphabet_frame = transform_data uuid0 None batch_alphabet"

text \<open>One company, one day, two symbols.\<close>

definition batch_two_tickers :: "raw_row list" where
  "batch_two_tickers =
     [raw ''GOOG'' ''Alphabet Inc.'' (2024, 1, 2) (Some 100),
      raw ''GOOGL'' ''Alphabet Inc.'' (2024, 1, 2) (Some 110)]"

definition two_tickers_frame :: "out_row list" where
  "two_tickers_frame = transform_data uuid0 None batch_two_tickers"

section \<open>Properties of the building blocks\<close>

lemmas row_defs = tick.defs id_row.defs out_row.defs df_row.defs

subsection \<open>\<open>drop_duplicates\<close>\<close>

lemma drop_duplicates_from_keys:
  "key ` set (drop_duplicates_from key seen xs) = key ` set xs - set seen"
  by (induction xs arbitrary: seen) auto

lemma drop_duplicates_from_distinct:
  "distinct (map key (drop_duplicates_from key seen xs))"
proof (induction xs arbitrary: seen)
  case Nil
  then show ?case by simp
next
  case (Cons x xs)
  have "key x \<notin> key ` set (drop_duplicates_from key (key x # seen) xs)"
    by (simp add: drop_duplicates_from_keys)
  with Cons show ?case by simp
qed

lemma drop_duplicates_from_subseq: "subseq (drop_duplicates_from key seen xs) xs"
  by (induction xs arbitrary: seen) auto

lemma drop_duplicates_from_find:
  "find (\<lambda>r. key r = k) (drop_duplicates_from key seen xs) =
     (if k \<in> set seen then None else find (\<lambda>r. key r = k) xs)"
  by (induction xs arbitrary: seen) auto

lemma drop_duplicates_from_map:
  "(\<And>x. key (f x) = key' x) \<Longrightarrow>
     drop_duplicates_from key seen (map f xs) = map f (drop_duplicates_from key' seen xs)"
  by (induction xs arbitrary: seen) auto


lemma find_map: "find P (map f xs) = map_option f (find (\<lambda>x. P (f x)) xs)"
  by (induction xs) auto

subsection \<open>The input columns through \<open>transform_data\<close>\<close>

lemma length_groupby_window [simp]: "length (groupby_window f seen xs) = length xs"
  by (induction xs arbitrary: seen) auto

lemma map_zip_left: "length ys = length xs \<Longrightarrow> map (\<lambda>p. g (fst p)) (zip xs ys) = map g xs"
  by (induction xs ys rule: list_induct2') auto

lemma truncate_add_ids [simp]: "tick.truncate (add_ids rid r) = r"
  by (simp add: add_ids_def row_defs)

lemma truncate_add_return [simp]: "tick.truncate (add_return r p) = tick.truncate r"
  by (simp add: add_return_def row_defs)

lemma truncate_out_row [simp]: "tick.truncate (out_row.truncate r) = tick.truncate r"
  by (simp add: row_defs)

lemma row_key_truncate [simp]: "row_key (tick.truncate r) = row_key r"
  by (simp add: row_key_def row_defs)

lemma row_key_fill_missing [simp]: "row_key (fill_missing r) = row_key r"
  by (simp add: row_key_def fill_missing_def)

lemma deduplicated_cells:
  "map tick.truncate (deduplicated gen wm batch) =
     drop_duplicates row_key (map fill_missing (filter_watermark wm batch))"
proof -
  let ?F = "map fill_missing (filter_watermark wm batch)"
  let ?h = "\<lambda>(i, r). add_ids (gen i) r"
  have k: "\<And>x. row_key (?h x) = row_key (snd x)"
    by (auto simp: add_ids_def row_key_def row_defs split: prod.splits)
  have "map tick.truncate (deduplicated gen wm batch) =
          map tick.truncate (map ?h (drop_duplicates_from (\<lambda>x. row_key (snd x)) [] (enumerate 0 ?F)))"
    unfolding deduplicated_def Let_def drop_duplicates_def
    by (subst drop_duplicates_from_map [where key' = "\<lambda>x. row_key (snd x)"]) (use k in auto)
  also have "\<dots> = map snd (drop_duplicates_from (\<lambda>x. row_key (snd x)) [] (enumerate 0 ?F))"
    by (auto split: prod.splits)
  also have "\<dots> = drop_duplicates_from row_key [] (map snd (enumerate 0 ?F))"
    by (rule drop_duplicates_from_map [symmetric]) simp
  finally show ?thesis by (simp add: drop_duplicates_def)
qed

lemma transform_frame_cells:
  "map tick.truncate (transform_frame gen wm batch) = map tick.truncate (deduplicated gen wm batch)"
  unfolding transform_frame_def Let_def
  by (simp add: map_zip_left [where g = tick.truncate] case_prod_unfold o_def)

lemma transform_data_cells:
  "map tick.truncate (transform_data gen wm batch) =
     drop_duplicates row_key (map fill_missing (filter_watermark wm batch))"
  by (simp add: transform_data_def transform_frame_cells deduplicated_cells o_def)

lemma transform_data_keys:
  "map row_key (transform_data gen wm batch) = map row_key (map tick.truncate (transform_data gen wm batch))"
  by simp

section \<open>Deduplication\<close>

text \<open>
  Claim C5. Deduplication on (Symbol, Date) keeps the first occurrence of each pair in the
  order left by the watermark filter and drops the later ones: the keys of the normalized
  output are pairwise distinct, they are exactly the keys of the filtered input, the row
  that survives for a key is the first row with that key in the filtered (and filled)
  input, and the surviving rows stand in their original order.
\<close>

theorem transform_data_deduplicates:
  "distinct (map row_key (transform_data gen wm batch))
   \<and> set (map row_key (transform_data gen wm batch)) = set (map row_key (filter_watermark wm batch))
   \<and> (\<forall>k. find (\<lambda>r. row_key r = k) (map tick.truncate (transform_data gen wm batch))
          = find (\<lambda>r. row_key r = k) (map fill_missing (filter_watermark wm batch)))
   \<and> subseq (map tick.truncate (transform_data gen wm batch))
        (map fill_missing (filter_watermark wm batch))"
proof -
  let ?out = "transform_data gen wm batch"
  let ?F = "map fill_missing (filter_watermark wm batch)"
  have cells: "map tick.truncate ?out = drop_duplicates row_key ?F"
    by (rule transform_data_cells)
  have 1: "distinct (map row_key ?out)"
    unfolding transform_data_keys cells drop_duplicates_def by (rule drop_duplicates_from_distinct)
  have "set (map row_key ?out) = row_key ` set ?F"
    unfolding transform_data_keys cells drop_duplicates_def
    by (simp add: drop_duplicates_from_keys)
  then have 2: "set (map row_key ?out) = set (map row_key (filter_watermark wm batch))"
    by (simp add: image_image)
  have 3: "\<forall>k. find (\<lambda>r. row_key r = k) (map tick.truncate ?out) = find (\<lambda>r. row_key r = k) ?F"
    unfolding cells drop_duplicates_def by (simp add: drop_duplicates_from_find)
  have 4: "subseq (map tick.truncate ?out) ?F"
    unfolding cells drop_duplicates_def by (rule drop_duplicates_from_subseq)
  from 1 2 3 4 show ?thesis by blast
qed

theorem transform_data_deduplicates_witness:
  "map (\<lambda>r. (Symbol r, Date r, ClosePrice r)) (transform_data uuid0 None batch_dup) =
     [(''AAPL'', (2024, 1, 2), 100), (''AAPL'', (2024, 1, 3), 110)]
   \<and> distinct (map row_key (transform_data uuid0 None batch_dup))"
proof -
  have "map (\<lambda>r. (Symbol r, Date r, ClosePrice r)) (transform_data uuid0 None batch_dup) =
     [(''AAPL'', (2024, 1, 2), 100), (''AAPL'', (2024, 1, 3), 110)]"
    by (simp add: transform_data_def transform_frame_def deduplicated_def batch_dup_def raw_def
        fill_missing_def add_ids_def add_return_def drop_duplicates_def row_key_def shifted_def
        enumerate_eq_zip row_defs)
  with transform_data_deduplicates [of uuid0 None batch_dup] show ?thesis by blast
qed

section \<open>The shape of the normalized frame\<close>

lemma add_ids_sel [simp]:
  "Symbol (add_ids rid r) = Symbol r" "CompanyName (add_ids rid r) = CompanyName r"
  "Date (add_ids rid r) = Date r" "OpenPrice (add_ids rid r) = OpenPrice r"
  "High (add_ids rid r) = High r" "Low (add_ids rid r) = Low r"
  "ClosePrice (add_ids rid r) = ClosePrice r" "Volume (add_ids rid r) = Volume r"
  "RecordID (add_ids rid r) = rid" "CompanyID (add_ids rid r) = map_company_id (CompanyName r)"
  "DateID (add_ids rid r) = date_id (Date r)"
  by (simp_all add: add_ids_def row_defs)

lemma add_return_sel [simp]:
  "Symbol (add_return r p) = Symbol r" "CompanyName (add_return r p) = CompanyName r"
  "Date (add_return r p) = Date r" "OpenPrice (add_return r p) = OpenPrice r"
  "High (add_return r p) = High r" "Low (add_return r p) = Low r"
  "ClosePrice (add_return r p) = ClosePrice r" "Volume (add_return r p) = Volume r"
  "RecordID (add_return r p) = RecordID r" "CompanyID (add_return r p) = CompanyID r"
  "DateID (add_return r p) = DateID r"
  "DailyReturn (add_return r p) = daily_return (ClosePrice r) p"
  "PreviousClosePrice (add_return r p) = p"
  by (simp_all add: add_return_def row_defs)

lemma out_row_truncate_sel [simp]:
  "Symbol (out_row.truncate d) = Symbol d" "CompanyName (out_row.truncate d) = CompanyName d"
  "Date (out_row.truncate d) = Date d" "OpenPrice (out_row.truncate d) = OpenPrice d"
  "High (out_row.truncate d) = High d" "Low (out_row.truncate d) = Low d"
  "ClosePrice (out_row.truncate d) = ClosePrice d" "Volume (out_row.truncate d) = Volume d"
  "RecordID (out_row.truncate d) = RecordID d" "CompanyID (out_row.truncate d) = CompanyID d"
  "DateID (out_row.truncate d) = DateID d" "DailyReturn (out_row.truncate d) = DailyReturn d"
  by (simp_all add: row_defs)

lemma tick_truncate_sel [simp]:
  "Symbol (tick.truncate r) = Symbol r" "CompanyName (tick.truncate r) = CompanyName r"
  "Date (tick.truncate r) = Date r" "ClosePrice (tick.truncate r) = ClosePrice r"
  by (simp_all add: row_defs)

text \<open>
  The identifiers drawn for a run touch nothing but the \<open>RecordID\<close> column: which rows
  survive and what the previous close of each is are fixed by the batch and the watermark.
\<close>

lemma frame_explicit:
  "transform_frame gen wm batch =
     (let D = drop_duplicates (\<lambda>x. row_key (snd x))
                (enumerate 0 (map fill_missing (filter_watermark wm batch)));
          P = groupby_window (shifted 1) [] (map (\<lambda>x. (Some (Symbol (snd x)), ClosePrice (snd x))) D)
      in map (\<lambda>(x, p). add_return (add_ids (gen (fst x)) (snd x)) p) (zip D P))"
proof -
  let ?h = "\<lambda>(i, r). add_ids (gen i) r"
  let ?E = "enumerate 0 (map fill_missing (filter_watermark wm batch))"
  have k: "\<And>x. row_key (?h x) = row_key (snd x)"
    by (auto simp: add_ids_def row_key_def row_defs split: prod.splits)
  have d: "deduplicated gen wm batch = map ?h (drop_duplicates (\<lambda>x. row_key (snd x)) ?E)"
    unfolding deduplicated_def Let_def drop_duplicates_def
    by (subst drop_duplicates_from_map [where key' = "\<lambda>x. row_key (snd x)"]) (use k in auto)
  show ?thesis
    unfolding transform_frame_def Let_def d
    by (simp add: zip_map1 case_prod_unfold o_def)
qed

lemma without_RecordID_row:
  "without_RecordID (out_row.truncate (add_return (add_ids rid r) p)) =
     out_row.truncate (add_return (add_ids [] r) p)"
  by (simp add: without_RecordID_def add_return_def add_ids_def row_defs)

lemma transform_data_without_RecordID:
  "map without_RecordID (transform_data gen wm batch) = transform_data (\<lambda>i. []) wm batch"
  unfolding transform_data_def frame_explicit Let_def
  by (simp add: without_RecordID_row case_prod_unfold o_def)

lemma transform_data_empty:
  "filter_watermark wm batch = [] \<Longrightarrow> transform_data gen wm batch = []"
  using transform_data_cells [of gen wm batch] by (simp add: drop_duplicates_def)

lemma transform_data_dates:
  "r \<in> set (transform_data gen (Some w) batch) \<Longrightarrow> w < Date r"
proof -
  assume r: "r \<in> set (transform_data gen (Some w) batch)"
  then have "tick.truncate r \<in> set (map tick.truncate (transform_data gen (Some w) batch))"
    by simp
  then have "tick.truncate r \<in> set (map fill_missing (filter_watermark (Some w) batch))"
    unfolding transform_data_cells drop_duplicates_def
    using drop_duplicates_from_subseq [of row_key "[]"] list_emb_set [of "(=)"]
    by (metis (no_types, lifting))
  then obtain t where "t \<in> set batch" "w < Date t" "tick.truncate r = fill_missing t"
    by auto
  then show "w < Date r"
    by (metis tick_truncate_sel(3) fill_missing_def tick.select_convs(3))
qed

section \<open>Two runs on the same input\<close>

text \<open>
  Claim C9. Two runs of the normalisation on the same raw batch with the same watermark,
  whatever identifiers each run draws, produce outputs that agree in every column but
  \<open>RecordID\<close>: the same rows, in the same order, with the same cells.
\<close>

theorem transform_data_deterministic:
  "map without_RecordID (transform_data gen wm batch) =
   map without_RecordID (transform_data gen' wm batch)"
  by (simp only: transform_data_without_RecordID)

theorem transform_data_deterministic_witness:
  "map without_RecordID (transform_data uuid0 None batch_dup) =
   map without_RecordID (transform_data uuid1 None batch_dup)
   \<and> map RecordID (transform_data uuid0 None batch_dup) \<noteq>
     map RecordID (transform_data uuid1 None batch_dup)"
proof -
  have "map RecordID (transform_data uuid0 None batch_dup) \<noteq>
        map RecordID (transform_data uuid1 None batch_dup)"
    by (simp add: transform_data_def transform_frame_def deduplicated_def batch_dup_def raw_def
        fill_missing_def drop_duplicates_def row_key_def enumerate_eq_zip uuid0_def uuid1_def)
  with transform_data_deterministic [of uuid0 None batch_dup uuid1] show ?thesis by blast
qed

section \<open>The watermark\<close>

text \<open>
  Claim C4. With a watermark \<open>w\<close> the filter keeps exactly the rows dated strictly after
  \<open>w\<close>: the (Symbol, Date) pairs of the normalized output are those of the batch rows with
  \<open>w < Date\<close>, no output row is dated at or before \<open>w\<close>, and when \<open>w\<close> is the most recent
  date of the batch the output has no row.
\<close>

theorem watermark_filter:
  "filter_watermark (Some w) batch = filter (\<lambda>r. w < Date r) batch
   \<and> set (map row_key (transform_data gen (Some w) batch)) = row_key ` {r \<in> set batch. w < Date r}
   \<and> (\<forall>r \<in> set (transform_data gen (Some w) batch). w < Date r)
   \<and> (batch \<noteq> [] \<and> w = Max (Date ` set batch) \<longrightarrow> transform_data gen (Some w) batch = [])"
proof -
  have 2: "set (map row_key (transform_data gen (Some w) batch)) = row_key ` {r \<in> set batch. w < Date r}"
    unfolding transform_data_keys transform_data_cells drop_duplicates_def
    by (simp add: drop_duplicates_from_keys image_image)
  have 3: "\<forall>r \<in> set (transform_data gen (Some w) batch). w < Date r"
    by (simp add: transform_data_dates)
  have 4: "transform_data gen (Some w) batch = []" if "batch \<noteq> []" "w = Max (Date ` set batch)"
  proof (rule transform_data_empty)
    have "\<not> w < Date r" if "r \<in> set batch" for r
    proof -
      have "Date r \<le> Max (Date ` set batch)" using that by simp
      then show ?thesis using \<open>w = Max (Date ` set batch)\<close> by simp
    qed
    then show "filter_watermark (Some w) batch = []" by simp
  qed
  from 2 3 4 show ?thesis by simp
qed

theorem watermark_filter_witness:
  "batch_dup \<noteq> [] \<and> (2024, 1, 3) = Max (Date ` set batch_dup)
   \<and> transform_data uuid0 (Some (2024, 1, 3)) batch_dup = []
   \<and> map Date (transform_data uuid0 (Some (2024, 1, 2)) batch_dup) = [(2024, 1, 3)]"
proof -
  have h: "batch_dup \<noteq> [] \<and> (2024, 1, 3) = Max (Date ` set batch_dup)"
    by (simp add: batch_dup_def raw_def)
  have e: "map Date (transform_data uuid0 (Some (2024, 1, 2)) batch_dup) = [(2024, 1, 3)]"
    by (simp add: transform_data_def transform_frame_def deduplicated_def batch_dup_def raw_def
        fill_missing_def drop_duplicates_def row_key_def enumerate_eq_zip)
  from h e watermark_filter [of "(2024, 1, 3)" batch_dup uuid0] show ?thesis by blast
qed

section \<open>Row order of the output\<close>

lemma filter_watermark_subseq: "subseq (filter_watermark wm batch) batch"
  by (cases wm) auto

lemma transform_data_subseq:
  "subseq (map tick.truncate (transform_data gen wm batch)) (map fill_missing batch)"
proof -
  have "subseq (map tick.truncate (transform_data gen wm batch))
          (map fill_missing (filter_watermark wm batch))"
    unfolding transform_data_cells drop_duplicates_def by (rule drop_duplicates_from_subseq)
  moreover have "subseq (map fill_missing (filter_watermark wm batch)) (map fill_missing batch)"
    by (rule subseq_map) (rule filter_watermark_subseq)
  ultimately show ?thesis by (rule subseq_order.trans)
qed

lemma transform_data_CompanyID:
  "map CompanyID (transform_data gen wm batch) =
     map (\<lambda>r. map_company_id (CompanyName r)) (transform_data gen wm batch)"
  unfolding transform_data_def frame_explicit Let_def
  by (simp add: case_prod_unfold o_def)





section \<open>Windows over a group\<close>

text \<open>
  The window column restricted to one group is the window function run over that group
  alone: a row's window never sees another group's rows.
\<close>

lemma groupby_window_group:
  "map snd (filter (\<lambda>(e, _). fst e = Some k) (zip xs (groupby_window f seen xs))) =
     groupby_window f (filter (\<lambda>e. fst e = Some k) seen) (filter (\<lambda>e. fst e = Some k) xs)"
proof (induction xs arbitrary: seen)
  case Nil
  then show ?case by simp
next
  case (Cons x xs)
  obtain k' v where x: "x = (k', v)" by (cases x)
  show ?case
  proof (cases "k' = Some k")
    case True
    then show ?thesis using Cons [of "x # seen"] by (simp add: x case_prod_unfold)
  next
    case False
    then show ?thesis using Cons [of "x # seen"] by (simp add: x)
  qed
qed

lemma groupby_window_single:
  "\<forall>e \<in> set seen \<union> set xs. fst e = Some k \<Longrightarrow>
     groupby_window f seen xs =
       map (\<lambda>i. f (rev (map snd (take (Suc i) xs)) @ map snd seen)) [0..<length xs]"
proof (induction xs arbitrary: seen)
  case Nil
  then show ?case by simp
next
  case (Cons x xs)
  obtain v where x: "x = (Some k, v)" using Cons.prems by (cases x) auto
  have all: "filter (\<lambda>(k', _). k' = Some k) seen = seen"
    using Cons.prems by (force simp: filter_id_conv)
  have ih: "groupby_window f (x # seen) xs =
       map (\<lambda>i. f (rev (map snd (take (Suc i) xs)) @ map snd (x # seen))) [0..<length xs]"
    using Cons.prems by (intro Cons.IH) auto
  have "[0..<length (x # xs)] = 0 # map Suc [0..<length xs]"
    by (simp add: upt_conv_Cons map_Suc_upt del: upt_Suc)
  then show ?case
    using ih by (simp add: x all o_def del: upt_Suc)
qed


lemma zip_filter_key:
  "map snd (filter (\<lambda>(e, _). fst e = Some k) (zip (map g df) W)) =
     map snd (filter (\<lambda>(r, _). fst (g r) = Some k) (zip df W))"
  by (simp add: zip_map1 filter_map o_def case_prod_unfold)

lemma filter_zip_left:
  "length W = length df \<Longrightarrow> map fst (filter (\<lambda>(r, _). P r) (zip df W)) = filter P df"
  by (induction df W rule: list_induct2') auto

lemma shifted_prefix:
  "i < length vs \<Longrightarrow>
     shifted 1 (rev (take (Suc i) vs)) = (if 0 < i then Some (vs ! (i - 1)) else None)"
proof -
  assume i: "i < length vs"
  then have len: "length (take (Suc i) vs) = Suc i" by simp
  show ?thesis
  proof (cases "0 < i")
    case True
    then have "rev (take (Suc i) vs) ! 1 = take (Suc i) vs ! (i - 1)"
      using len by (simp add: rev_nth del: length_take)
    also have "\<dots> = vs ! (i - 1)" using True by simp
    finally show ?thesis using True len by (simp add: shifted_def del: length_take)
  next
    case False
    then show ?thesis using len by (simp add: shifted_def del: length_take)
  qed
qed

lemma filter_map_key:
  "filter (\<lambda>e. fst e = Some s) (map (\<lambda>r. (Some (key r), val r)) df) =
     map (\<lambda>r. (Some s, val r)) (filter (\<lambda>r. key r = s) df)"
  by (induction df) auto

section \<open>Daily return\<close>

lemma frame_symbol_rows:
  "symbol_rows s (transform_frame gen wm batch) =
     map (\<lambda>(r, p). add_return r p)
       (filter (\<lambda>(r, _). Symbol r = s)
          (zip (deduplicated gen wm batch)
             (groupby_window (shifted 1) []
                (map (\<lambda>r. (Some (Symbol r), ClosePrice r)) (deduplicated gen wm batch)))))"
  unfolding symbol_rows_def transform_frame_def Let_def
  by (simp add: filter_map o_def case_prod_unfold)

lemma frame_previous_close:
  "map PreviousClosePrice (symbol_rows s (transform_frame gen wm batch)) =
     groupby_window (shifted 1) []
       (map (\<lambda>r. (Some s, ClosePrice r)) (symbol_rows s (transform_frame gen wm batch)))"
proof -
  let ?df = "deduplicated gen wm batch"
  let ?g = "\<lambda>r. (Some (Symbol r), ClosePrice r)"
  let ?W = "groupby_window (shifted 1) [] (map ?g ?df)"
  let ?Z = "filter (\<lambda>(r, _). Symbol r = s) (zip ?df ?W)"
  have a: "map PreviousClosePrice (symbol_rows s (transform_frame gen wm batch)) = map snd ?Z"
    unfolding frame_symbol_rows by (simp add: case_prod_unfold o_def)
  have "map snd ?Z = map snd (filter (\<lambda>(e, _). fst e = Some s) (zip (map ?g ?df) ?W))"
    unfolding zip_filter_key by simp
  also have "\<dots> = groupby_window (shifted 1) [] (filter (\<lambda>e. fst e = Some s) (map ?g ?df))"
    using groupby_window_group [of s "map ?g ?df" "shifted 1" "[]"] by simp
  also have "filter (\<lambda>e. fst e = Some s) (map ?g ?df) = map (\<lambda>r. (Some s, ClosePrice r)) (filter (\<lambda>r. Symbol r = s) ?df)"
    by (rule filter_map_key)
  also have "filter (\<lambda>r. Symbol r = s) ?df = map fst ?Z"
    by (simp add: filter_zip_left)
  also have "map (\<lambda>r. (Some s, ClosePrice r)) (map fst ?Z)
      = map (\<lambda>r. (Some s, ClosePrice r)) (symbol_rows s (transform_frame gen wm batch))"
    unfolding frame_symbol_rows by (simp add: case_prod_unfold o_def)
  finally show ?thesis using a by simp
qed


lemma frame_previous_close_nth:
  assumes "i < length (symbol_rows s (transform_frame gen wm batch))"
  shows "PreviousClosePrice (symbol_rows s (transform_frame gen wm batch) ! i) =
           (if 0 < i then Some (ClosePrice (symbol_rows s (transform_frame gen wm batch) ! (i - 1)))
            else None)"
proof -
  let ?p = "symbol_rows s (transform_frame gen wm batch)"
  let ?xs = "map (\<lambda>r. (Some s, ClosePrice r)) ?p"
  have "map PreviousClosePrice ?p = groupby_window (shifted 1) [] ?xs"
    by (rule frame_previous_close)
  also have "\<dots> = map (\<lambda>i. shifted 1 (rev (map snd (take (Suc i) ?xs)))) [0..<length ?xs]"
    using groupby_window_single [where seen = "[]" and xs = ?xs and k = s and f = "shifted 1"]
    by simp
  finally have "map PreviousClosePrice ?p ! i = shifted 1 (rev (take (Suc i) (map ClosePrice ?p)))"
    using assms by (simp add: take_map o_def del: upt_Suc)
  also have "\<dots> = (if 0 < i then Some (map ClosePrice ?p ! (i - 1)) else None)"
    using assms by (intro shifted_prefix) simp
  finally show ?thesis using assms by simp
qed

lemma frame_daily_return:
  "r \<in> set (transform_frame gen wm batch) \<Longrightarrow>
     DailyReturn r = daily_return (ClosePrice r) (PreviousClosePrice r)"
  unfolding transform_frame_def Let_def by auto

lemma daily_return_None: "daily_return c None = Fin 0"
  by (simp add: daily_return_def fsub_def)

lemma daily_return_Some:
  "daily_return c (Some q) =
     (if q \<noteq> 0 then Fin ((c - q) / q)
      else if c = 0 then Fin 0 else if c < 0 then NInf else PInf)"
  by (simp add: daily_return_def fsub_def)

text \<open>
  What the code stores, in the order of the rows: within the rows of a symbol as they
  stand in the frame, the first has no \<open>PreviousClosePrice\<close> and a \<open>DailyReturn\<close> of 0.0;
  every later one has the \<open>ClosePrice\<close> of the row before it as \<open>PreviousClosePrice\<close>, and
  the quotient as \<open>DailyReturn\<close>, with only NaN replaced by 0.0.
\<close>

lemma daily_return_in_row_order:
  "let p = symbol_rows s (transform_frame gen wm batch) in
     (p \<noteq> [] \<longrightarrow> PreviousClosePrice (p ! 0) = None \<and> DailyReturn (p ! 0) = Fin 0) \<and>
     (\<forall>i. 0 < i \<and> i < length p \<longrightarrow>
        PreviousClosePrice (p ! i) = Some (ClosePrice (p ! (i - 1))) \<and>
        DailyReturn (p ! i) =
          (if ClosePrice (p ! (i - 1)) \<noteq> 0
           then Fin ((ClosePrice (p ! i) - ClosePrice (p ! (i - 1))) / ClosePrice (p ! (i - 1)))
           else if ClosePrice (p ! i) = 0 then Fin 0
           else if ClosePrice (p ! i) < 0 then NInf else PInf))"
proof -
  let ?p = "symbol_rows s (transform_frame gen wm batch)"
  have dr: "DailyReturn (?p ! i) = daily_return (ClosePrice (?p ! i)) (PreviousClosePrice (?p ! i))"
    if "i < length ?p" for i
  proof -
    have "?p ! i \<in> set ?p" using that by simp
    then have "?p ! i \<in> set (transform_frame gen wm batch)" by (simp add: symbol_rows_def)
    then show ?thesis by (rule frame_daily_return)
  qed
  have first: "PreviousClosePrice (?p ! 0) = None \<and> DailyReturn (?p ! 0) = Fin 0" if "?p \<noteq> []"
  proof -
    have l: "0 < length ?p" using that by simp
    have "PreviousClosePrice (?p ! 0) = None"
      using frame_previous_close_nth [OF l] by simp
    then show ?thesis using dr [OF l] by (simp add: daily_return_None)
  qed
  have later: "PreviousClosePrice (?p ! i) = Some (ClosePrice (?p ! (i - 1))) \<and>
        DailyReturn (?p ! i) =
          (if ClosePrice (?p ! (i - 1)) \<noteq> 0
           then Fin ((ClosePrice (?p ! i) - ClosePrice (?p ! (i - 1))) / ClosePrice (?p ! (i - 1)))
           else if ClosePrice (?p ! i) = 0 then Fin 0
           else if ClosePrice (?p ! i) < 0 then NInf else PInf)"
    if "0 < i" "i < length ?p" for i
  proof -
    have "PreviousClosePrice (?p ! i) = Some (ClosePrice (?p ! (i - 1)))"
      using frame_previous_close_nth [OF that(2)] that(1) by simp
    then show ?thesis using dr [OF that(2)] by (simp only: daily_return_Some)
  qed
  show ?thesis unfolding Let_def using first later by blast
qed

text \<open>
  Claim C1 says that in a symbol's partition taken in ascending date order the first row
  has no \<open>PreviousClosePrice\<close> and a \<open>DailyReturn\<close> of 0.0, that every later row has the
  prior row's \<open>ClosePrice\<close> as \<open>PreviousClosePrice\<close>, and that a zero divisor gives a
  \<open>DailyReturn\<close> of 0.0. The code departs from it at two batches. Where a missing close
  was filled with 0.0 and the next day's close is 5, the previous close of the second day
  is 0 and the return stored is an infinity, not 0.0: \<open>fillna\<close> replaces NaN only. Where
  the days of a symbol are listed most recent first, \<open>shift\<close> follows the rows as they
  stand: the earliest day of the partition, 2 January, has the next day's close 110 as its
  previous close and a return of \<open>-1/11\<close>, and the later day has no previous close.
\<close>

theorem daily_return_claim_fails:
  "PreviousClosePrice (symbol_partition ''AAPL'' (transform_frame uuid0 None batch_zero) ! 1) = Some 0
   \<and> DailyReturn (symbol_partition ''AAPL'' (transform_frame uuid0 None batch_zero) ! 1) = PInf
   \<and> DailyReturn (symbol_partition ''AAPL'' (transform_frame uuid0 None batch_zero) ! 1) \<noteq> Fin 0
   \<and> Date (symbol_partition ''AAPL'' (transform_frame uuid0 None batch_desc) ! 0) = (2024, 1, 2)
   \<and> PreviousClosePrice (symbol_partition ''AAPL'' (transform_frame uuid0 None batch_desc) ! 0) = Some 110
   \<and> DailyReturn (symbol_partition ''AAPL'' (transform_frame uuid0 None batch_desc) ! 0) = Fin (- 1 / 11)
   \<and> PreviousClosePrice (symbol_partition ''AAPL'' (transform_frame uuid0 None batch_desc) ! 1) = None"
  by (simp add: symbol_partition_def symbol_rows_def transform_frame_def deduplicated_def
        batch_zero_def batch_desc_def raw_def fill_missing_def drop_duplicates_def row_key_def
        enumerate_eq_zip shifted_def daily_return_def fsub_def)

section \<open>Group-by, column by column\<close>

lemma set_group_keys: "set (group_keys ks) = {k. Some k \<in> set ks}"
  by (force simp: group_keys_def List.map_filter_def image_iff)

lemma distinct_group_keys: "distinct (group_keys ks)"
  by (simp add: group_keys_def)

lemma sorted_group_keys: "sorted (group_keys ks)"
  by (simp add: group_keys_def)

lemma group_values_map: "group_values ks (map g vs) k = map g (group_values ks vs k)"
  by (simp add: group_values_def zip_map2 filter_map o_def case_prod_unfold)

lemma group_values_zip:
  "length ks = length as \<Longrightarrow> length as = length bs \<Longrightarrow>
     group_values ks (zip as bs) k = zip (group_values ks as k) (group_values ks bs k)"
  by (induction ks as bs rule: list_induct3) (auto simp: group_values_def)

lemma group_values_rows:
  "group_values (map key df) df k = filter (\<lambda>r. key r = Some k) df"
  by (induction df) (auto simp: group_values_def)

lemma length_group_values:
  "length vs = length ks \<Longrightarrow> length (group_values ks vs k) = length (filter (\<lambda>k'. k' = Some k) ks)"
  by (induction ks vs rule: list_induct2') (auto simp: group_values_def)

lemma group_values_window:
  "group_values (map key df) (groupby_window f [] (map (\<lambda>r. (key r, val r)) df)) k =
     groupby_window f [] (map (\<lambda>r. (key r, val r)) (filter (\<lambda>r. key r = Some k) df))"
proof -
  let ?g = "\<lambda>r. (key r, val r)"
  let ?W = "groupby_window f [] (map ?g df)"
  have "group_values (map key df) ?W k = map snd (filter (\<lambda>(r, _). key r = Some k) (zip df ?W))"
    by (simp add: group_values_def zip_map1 filter_map o_def case_prod_unfold)
  also have "\<dots> = map snd (filter (\<lambda>(e, _). fst e = Some k) (zip (map ?g df) ?W))"
    by (simp add: zip_filter_key)
  also have "\<dots> = groupby_window f [] (filter (\<lambda>e. fst e = Some k) (map ?g df))"
    using groupby_window_group [of k "map ?g df" f "[]"] by simp
  also have "filter (\<lambda>e. fst e = Some k) (map ?g df) = map ?g (filter (\<lambda>r. key r = Some k) df)"
    by (simp add: filter_map o_def)
  finally show ?thesis .
qed

lemma merge_left_same_keys:
  "distinct ks \<Longrightarrow>
     merge_left (map (\<lambda>k. (k, a k)) ks) (map (\<lambda>k. (k, b k)) ks) =
       map (\<lambda>k. (k, a k, Some (b k))) ks"
proof -
  assume d: "distinct ks"
  have one: "map snd (filter (\<lambda>(k', _). k' = k) (map (\<lambda>k. (k, b k)) ks)) = [b k]" if "k \<in> set ks" for k
    using d that by (induction ks) (auto simp: filter_empty_conv)
  have "concat (map (\<lambda>(k, x).
       (case map snd (filter (\<lambda>(k', _). k' = k) (map (\<lambda>k. (k, b k)) ks)) of
          [] \<Rightarrow> [(k, x, None)]
        | bs \<Rightarrow> map (\<lambda>y. (k, x, Some y)) bs)) (map (\<lambda>k. (k, a k)) js)) =
       map (\<lambda>k. (k, a k, Some (b k))) js" if "set js \<subseteq> set ks" for js
    using that by (induction js) (auto simp: one)
  then show ?thesis by (simp add: merge_left_def)
qed


text \<open>
  Every row-level column of \<open>aggregate_data\<close> is local to the company: restricted to a
  company's rows it is the column computed from those rows alone.
\<close>

lemma length_cols [simp]:
  "length (CompanyID_col df) = length df" "length (DailyReturn_in df) = length df"
  "length (AverageDailyPrice_col df) = length df" "length (Volume_col df) = length df"
  "length (PreviousClosePrice_col df) = length df" "length (DailyReturn_col df) = length df"
  "length (MovingAvg_col w df) = length df" "length (Trend_col df) = length df"
  "length (HighLowRatio_col df) = length df"
  by (simp_all add: CompanyID_col_def DailyReturn_in_def AverageDailyPrice_col_def Volume_col_def
      PreviousClosePrice_col_def DailyReturn_col_def MovingAvg_col_def Trend_col_def
      HighLowRatio_col_def close_by_company_def)

lemma company_rows_col: "group_values (CompanyID_col df) df k = company_rows df k"
  unfolding CompanyID_col_def company_rows_def by (rule group_values_rows)

lemma DailyReturn_in_local:
  "group_values (CompanyID_col df) (DailyReturn_in df) k = DailyReturn_in (company_rows df k)"
  unfolding DailyReturn_in_def by (simp add: group_values_map company_rows_col)

lemma AverageDailyPrice_local:
  "group_values (CompanyID_col df) (AverageDailyPrice_col df) k = AverageDailyPrice_col (company_rows df k)"
  unfolding AverageDailyPrice_col_def by (simp add: group_values_map company_rows_col)

lemma Volume_local:
  "group_values (CompanyID_col df) (Volume_col df) k = Volume_col (company_rows df k)"
  unfolding Volume_col_def by (simp add: group_values_map company_rows_col)

lemma HighLowRatio_local:
  "group_values (CompanyID_col df) (HighLowRatio_col df) k = HighLowRatio_col (company_rows df k)"
  unfolding HighLowRatio_col_def by (simp add: group_values_map company_rows_col)

lemma window_local:
  "group_values (CompanyID_col df) (groupby_window f [] (close_by_company df)) k =
     groupby_window f [] (close_by_company (company_rows df k))"
  unfolding CompanyID_col_def close_by_company_def company_rows_def
  by (rule group_values_window)

lemma PreviousClosePrice_local:
  "group_values (CompanyID_col df) (PreviousClosePrice_col df) k = PreviousClosePrice_col (company_rows df k)"
  unfolding PreviousClosePrice_col_def by (rule window_local)

lemma DailyReturn_local:
  "group_values (CompanyID_col df) (DailyReturn_col df) k = DailyReturn_col (company_rows df k)"
  unfolding DailyReturn_col_def
  by (simp add: group_values_map group_values_zip company_rows_col PreviousClosePrice_local)

lemma MovingAvg_local:
  "group_values (CompanyID_col df) (MovingAvg_col w df) k = MovingAvg_col w (company_rows df k)"
  unfolding MovingAvg_col_def by (simp add: group_values_map window_local)

lemma Trend_local:
  "group_values (CompanyID_col df) (Trend_col df) k = Trend_col (company_rows df k)"
  unfolding Trend_col_def by (simp add: group_values_map window_local)

lemmas col_local = DailyReturn_in_local AverageDailyPrice_local Volume_local HighLowRatio_local
  DailyReturn_local MovingAvg_local Trend_local

lemma summary_cols:
  "map (\<lambda>(a, _). Fin a) (zip (AverageDailyPrice_col g) (zip (Volume_col g) (DailyReturn_in g)))
     = map Fin (AverageDailyPrice_col g)"
  "map (\<lambda>(_, v, _). v) (zip (AverageDailyPrice_col g) (zip (Volume_col g) (DailyReturn_in g)))
     = Volume_col g"
  "map (\<lambda>(_, _, d). d) (zip (AverageDailyPrice_col g) (zip (Volume_col g) (DailyReturn_in g)))
     = DailyReturn_in g"
  by (simp_all add: AverageDailyPrice_col_def Volume_col_def DailyReturn_in_def
      zip_map_map zip_same_conv_map o_def)

lemma moving_cols:
  "map fst (zip (MovingAvg_col 5 g) (MovingAvg_col 10 g)) = MovingAvg_col 5 g"
  "map snd (zip (MovingAvg_col 5 g) (MovingAvg_col 10 g)) = MovingAvg_col 10 g"
  by simp_all

lemma facets_per_company:
  "company_performance_summary df =
     map (\<lambda>k. (k, mean (map Fin (AverageDailyPrice_col (company_rows df k))),
                   sum_list (Volume_col (company_rows df k)),
                   mean (DailyReturn_in (company_rows df k)))) (group_keys (CompanyID_col df))"
  "total_trading_volume df =
     map (\<lambda>k. (k, sum_list (Volume_col (company_rows df k)))) (group_keys (CompanyID_col df))"
  "daily_returns df =
     map (\<lambda>k. (k, mean (DailyReturn_col (company_rows df k)))) (group_keys (CompanyID_col df))"
  "volatility_index df =
     map (\<lambda>k. (k, std (DailyReturn_col (company_rows df k)))) (group_keys (CompanyID_col df))"
  "moving_averages df =
     map (\<lambda>k. (k, last_value (MovingAvg_col 5 (company_rows df k)),
                   last_value (MovingAvg_col 10 (company_rows df k)))) (group_keys (CompanyID_col df))"
  "trend_analysis df =
     map (\<lambda>k. (k, mean (Trend_col (company_rows df k)))) (group_keys (CompanyID_col df))"
  "high_low_ratios df =
     map (\<lambda>k. (k, mean (HighLowRatio_col (company_rows df k)))) (group_keys (CompanyID_col df))"
  "volume_analysis df =
     map (\<lambda>k. (k, mean (map (\<lambda>v. Fin (real_of_int v)) (Volume_col (company_rows df k)))))
       (group_keys (CompanyID_col df))"
  unfolding company_performance_summary_def total_trading_volume_def daily_returns_def
    volatility_index_def moving_averages_def trend_analysis_def high_low_ratios_def
    volume_analysis_def groupby_agg_def
  by (simp_all add: group_values_zip col_local summary_cols moving_cols)

lemma merged_per_company:
  "merged df = map (\<lambda>k. (k, company_joined (company_rows df k))) (group_keys (CompanyID_col df))"
  unfolding merged_def Let_def facets_per_company
  by (simp add: merge_left_same_keys distinct_group_keys company_joined_def)


lemma aggregate_data_per_company:
  "aggregate_data df =
     map (\<lambda>k. (k, to_agg_row (company_joined (company_rows df k)))) (group_keys (CompanyID_col df))"
  by (simp add: aggregate_data_def merged_per_company o_def)

lemma aggregate_data_keys: "map fst (aggregate_data df) = group_keys (CompanyID_col df)"
  by (simp add: aggregate_data_per_company o_def)

lemma facet_keys:
  "map fst (company_performance_summary df) = group_keys (CompanyID_col df)"
  "map fst (total_trading_volume df) = group_keys (CompanyID_col df)"
  "map fst (daily_returns df) = group_keys (CompanyID_col df)"
  "map fst (volatility_index df) = group_keys (CompanyID_col df)"
  "map fst (moving_averages df) = group_keys (CompanyID_col df)"
  "map fst (trend_analysis df) = group_keys (CompanyID_col df)"
  "map fst (high_low_ratios df) = group_keys (CompanyID_col df)"
  "map fst (volume_analysis df) = group_keys (CompanyID_col df)"
  by (simp_all add: facets_per_company o_def)

section \<open>The merged aggregate\<close>

text \<open>
  Claim C7. The merged aggregate has exactly one row for each distinct CompanyID of the
  input (a null CompanyID is no CompanyID; see C10). All eight facets carry the same key
  list as the merged frame, and every left join finds its partner: no facet loses a
  company and none brings one in.
\<close>

theorem merge_complete:
  "distinct (map fst (aggregate_data df))
   \<and> set (map fst (aggregate_data df)) = {k. \<exists>r \<in> set df. CompanyID r = Some k}
   \<and> map fst (company_performance_summary df) = map fst (aggregate_data df)
   \<and> map fst (total_trading_volume df) = map fst (aggregate_data df)
   \<and> map fst (daily_returns df) = map fst (aggregate_data df)
   \<and> map fst (volatility_index df) = map fst (aggregate_data df)
   \<and> map fst (moving_averages df) = map fst (aggregate_data df)
   \<and> map fst (trend_analysis df) = map fst (aggregate_data df)
   \<and> map fst (high_low_ratios df) = map fst (aggregate_data df)
   \<and> map fst (volume_analysis df) = map fst (aggregate_data df)
   \<and> (\<forall>j \<in> set (merged df). joined_complete (snd j))"
proof -
  have "set (group_keys (CompanyID_col df)) = {k. \<exists>r \<in> set df. CompanyID r = Some k}"
    by (force simp: set_group_keys CompanyID_col_def image_iff)
  moreover have "\<forall>j \<in> set (merged df). joined_complete (snd j)"
    by (simp add: merged_per_company company_joined_def)
  ultimately show ?thesis
    by (simp add: aggregate_data_keys facet_keys distinct_group_keys)
qed

theorem merge_complete_witness:
  "map fst (aggregate_data (transform_data uuid0 None batch_unknown)) = [1, 2]
   \<and> distinct (map fst (aggregate_data (transform_data uuid0 None batch_unknown)))
   \<and> list_all (\<lambda>j. joined_complete (snd j)) (merged (transform_data uuid0 None batch_unknown))"
proof -
  have "CompanyID_col (transform_data uuid0 None batch_unknown) = [Some 1, None, Some 2, Some 1]"
    by (simp add: CompanyID_col_def transform_data_def transform_frame_def deduplicated_def
        batch_unknown_def raw_def fill_missing_def drop_duplicates_def row_key_def enumerate_eq_zip
        map_company_id_def COMPANY_ID_MAP_def)
  then have "map fst (aggregate_data (transform_data uuid0 None batch_unknown)) = [1, 2]"
    by (simp add: aggregate_data_keys group_keys_def List.map_filter_def)
  with merge_complete [of "transform_data uuid0 None batch_unknown"] show ?thesis
    unfolding list_all_iff by blast
qed

section \<open>Rows without a company identifier\<close>

lemma company_rows_resolved: "company_rows (resolved df) k = company_rows df k"
  by (induction df) (auto simp: company_rows_def resolved_def)

lemma group_keys_resolved: "group_keys (CompanyID_col (resolved df)) = group_keys (CompanyID_col df)"
proof -
  have "List.map_filter (\<lambda>k. k) (map CompanyID (filter (\<lambda>r. CompanyID r \<noteq> None) df))
          = List.map_filter (\<lambda>k. k) (map CompanyID df)"
    by (induction df) (auto simp: List.map_filter_def)
  then show ?thesis by (simp add: group_keys_def CompanyID_col_def resolved_def)
qed

text \<open>
  Claim C10. Rows whose CompanyID is null take part in no facet: each of the eight
  group-by reductions, and so the merged aggregate, is what it would be had those rows
  not been in the input. The keys of the aggregate are identifiers, never null.
\<close>

theorem null_company_excluded:
  "aggregate_data df = aggregate_data (resolved df)
   \<and> company_performance_summary df = company_performance_summary (resolved df)
   \<and> total_trading_volume df = total_trading_volume (resolved df)
   \<and> daily_returns df = daily_returns (resolved df)
   \<and> volatility_index df = volatility_index (resolved df)
   \<and> moving_averages df = moving_averages (resolved df)
   \<and> trend_analysis df = trend_analysis (resolved df)
   \<and> high_low_ratios df = high_low_ratios (resolved df)
   \<and> volume_analysis df = volume_analysis (resolved df)"
  by (simp add: aggregate_data_per_company facets_per_company company_rows_resolved
      group_keys_resolved)

theorem null_company_excluded_witness:
  "CompanyID_col (transform_data uuid0 None batch_unknown) = [Some 1, None, Some 2, Some 1]
   \<and> map Symbol (resolved (transform_data uuid0 None batch_unknown)) = [''AAPL'', ''MSFT'', ''AAPL'']
   \<and> aggregate_data (transform_data uuid0 None batch_unknown) =
       aggregate_data (resolved (transform_data uuid0 None batch_unknown))"
proof -
  have a: "CompanyID_col (transform_data uuid0 None batch_unknown) = [Some 1, None, Some 2, Some 1]"
    by (simp add: CompanyID_col_def transform_data_def transform_frame_def deduplicated_def
        batch_unknown_def raw_def fill_missing_def drop_duplicates_def row_key_def enumerate_eq_zip
        map_company_id_def COMPANY_ID_MAP_def)
  have b: "map Symbol (resolved (transform_data uuid0 None batch_unknown)) = [''AAPL'', ''MSFT'', ''AAPL'']"
    by (simp add: resolved_def transform_data_def transform_frame_def deduplicated_def
        batch_unknown_def raw_def fill_missing_def drop_duplicates_def row_key_def enumerate_eq_zip
        map_company_id_def COMPANY_ID_MAP_def)
  from a b null_company_excluded [of "transform_data uuid0 None batch_unknown"] show ?thesis
    by blast
qed

section \<open>Volatility of a single row\<close>

lemma DailyReturn_col_single:
  "CompanyID r \<noteq> None \<Longrightarrow> DailyReturn_col [r] = [Fin 0]"
  by (auto simp: DailyReturn_col_def PreviousClosePrice_col_def close_by_company_def shifted_def
      daily_return_None)

lemma std_single: "std [x] = NaN"
  by (simp add: std_def Let_def)

text \<open>
  Claim C3, at a run that brings one new day for one company: the group has one row, the
  sample standard deviation of one value is undefined, and the \<open>VolatilityIndex\<close> written
  is the missing value, not 0.0.
\<close>

theorem volatility_single_row:
  "map Date single_day = [(2024, 1, 3)]
   \<and> map fst (aggregate_data single_day) = [1]
   \<and> map VolatilityIndex (map snd (aggregate_data single_day)) = [NaN]"
proof -
  have c: "map (\<lambda>r. (CompanyID r, Date r)) single_day = [(Some 1, (2024, 1, 3))]"
    by (simp add: single_day_def transform_data_def transform_frame_def deduplicated_def
        batch_dup_def raw_def fill_missing_def drop_duplicates_def row_key_def enumerate_eq_zip
        map_company_id_def COMPANY_ID_MAP_def)
  then obtain r where r: "single_day = [r]" "CompanyID r = Some 1" "Date r = (2024, 1, 3)"
    by auto
  have k: "group_keys (CompanyID_col single_day) = [1]"
    by (simp add: r CompanyID_col_def group_keys_def List.map_filter_def)
  have g: "company_rows single_day (Suc 0) = [r]"
    by (simp add: r company_rows_def)
  have d: "map Date single_day = [(2024, 1, 3)]"
    by (simp add: r)
  have v: "map VolatilityIndex (map snd (aggregate_data single_day)) = [NaN]"
    by (simp add: aggregate_data_per_company k g company_joined_def DailyReturn_col_single r(2)
        std_single)
  have "map fst (aggregate_data single_day) = [1]"
    by (simp add: aggregate_data_keys k)
  with d v show ?thesis by blast
qed

section \<open>Window sentinels\<close>

lemma groupby_window_nth:
  "i < length xs \<Longrightarrow>
     groupby_window f seen xs ! i =
       (case fst (xs ! i) of
          None \<Rightarrow> None
        | Some _ \<Rightarrow> f (snd (xs ! i) #
                     map snd (filter (\<lambda>(k', _). k' = fst (xs ! i)) (rev (take i xs) @ seen))))"
proof (induction xs arbitrary: seen i)
  case Nil
  then show ?case by simp
next
  case (Cons x xs)
  obtain k v where x: "x = (k, v)" by (cases x)
  show ?case
  proof (cases i)
    case 0
    show ?thesis unfolding 0 by (simp add: x split: option.splits)
  next
    case (Suc j)
    then have "j < length xs" using Cons.prems by simp
    from Cons.IH [OF this, of "x # seen"] show ?thesis by (simp add: Suc x split: option.splits)
  qed
qed

lemma company_window_nth:
  assumes "i < length df"
  shows "groupby_window f [] (close_by_company df) ! i =
           (if CompanyID (df ! i) = None then None
            else f (ClosePrice (df ! i) # rev (map ClosePrice (earlier_rows df i))))"
proof -
  let ?xs = "close_by_company df"
  have l: "i < length ?xs" using assms by (simp add: close_by_company_def)
  have n: "?xs ! i = (CompanyID (df ! i), ClosePrice (df ! i))"
    using assms by (simp add: close_by_company_def)
  have h: "map snd (filter (\<lambda>(k', _). k' = CompanyID (df ! i)) (rev (take i ?xs)))
             = rev (map ClosePrice (earlier_rows df i))"
    by (simp add: close_by_company_def earlier_rows_def take_map filter_map o_def rev_map
        rev_filter case_prod_unfold)
  show ?thesis
  proof (cases "CompanyID (df ! i)")
    case None
    then show ?thesis using groupby_window_nth [OF l, of f "[]"] by (simp add: n)
  next
    case (Some k)
    then show ?thesis using groupby_window_nth [OF l, of f "[]"] h by (simp add: n)
  qed
qed

lemma earlier_rows_length:
  assumes "i < length df" "CompanyID (df ! i) = Some k"
  shows "Suc (length (earlier_rows df i)) \<le> length (company_rows df k)"
proof -
  have "df = take i df @ df ! i # drop (Suc i) df"
    using assms(1) by (simp add: id_take_nth_drop)
  then have "company_rows df k =
      filter (\<lambda>r. CompanyID r = Some k) (take i df) @
      filter (\<lambda>r. CompanyID r = Some k) (df ! i # drop (Suc i) df)"
    unfolding company_rows_def by (metis filter_append)
  then show ?thesis using assms(2) by (simp add: earlier_rows_def)
qed

lemma pct_change_short: "length h \<le> n \<Longrightarrow> pct_change n h = (case h of [] \<Rightarrow> None | _ \<Rightarrow> Some NaN)"
  by (cases h) (auto simp: pct_change_def shifted_def fsub_def)

text \<open>
  Claim C6, as the code has it. The windows of \<open>aggregate_data\<close> run over the rows of a
  CompanyID, in row order. A row with fewer than \<open>w\<close> rows of its company up to and
  including itself has a \<open>w\<close>-day moving average of 0.0; a row with fewer than 5 rows of
  its company before it has a Trend of 0.0; a row without a CompanyID has both. So in a
  company's partition of fewer than 5 rows every row has a 5-day moving average of 0.0 and
  a Trend of 0.0.
\<close>

theorem window_sentinel:
  assumes "i < length df"
  shows "(CompanyID (df ! i) = None \<or> Suc (length (earlier_rows df i)) < w
            \<longrightarrow> MovingAvg_col w df ! i = 0)
       \<and> (CompanyID (df ! i) = None \<or> length (earlier_rows df i) < 5
            \<longrightarrow> Trend_col df ! i = Fin 0)
       \<and> (\<forall>k. CompanyID (df ! i) = Some k \<and> length (company_rows df k) < 5
            \<longrightarrow> MovingAvg_col 5 df ! i = 0 \<and> Trend_col df ! i = Fin 0)"
proof -
  have l: "i < length (groupby_window f [] (close_by_company df))" for f :: "real list \<Rightarrow> 'r option"
    using assms by (simp add: close_by_company_def)
  have ma: "MovingAvg_col w' df ! i = 0"
    if "CompanyID (df ! i) = None \<or> Suc (length (earlier_rows df i)) < w'" for w'
    using that l [of "rolling_mean w'"]
    by (auto simp: MovingAvg_col_def company_window_nth [OF assms] rolling_mean_def)
  have tr: "Trend_col df ! i = Fin 0"
    if "CompanyID (df ! i) = None \<or> length (earlier_rows df i) < 5"
    using that l [of "pct_change 5"]
    by (auto simp: Trend_col_def company_window_nth [OF assms] pct_change_short)
  have "MovingAvg_col 5 df ! i = 0 \<and> Trend_col df ! i = Fin 0"
    if "CompanyID (df ! i) = Some k" "length (company_rows df k) < 5" for k
  proof -
    have "Suc (length (earlier_rows df i)) < 5"
      using earlier_rows_length [OF assms that(1)] that(2) by simp
    then show ?thesis using ma [of 5] tr by simp
  qed
  with ma [of w] tr show ?thesis by blast
qed

text \<open>
  The claim as the specification words it, by symbol, fails for a company listed under
  two symbols: each symbol has three rows, the company has six, and the fifth and sixth
  rows carry a computed moving average and trend.
\<close>

lemma alphabet_close:
  "close_by_company alphabet_frame =
     [(Some 3, 100), (Some 3, 101), (Some 3, 102), (Some 3, 103), (Some 3, 104), (Some 3, 105)]"
  by (simp add: close_by_company_def alphabet_frame_def batch_alphabet_def
        transform_data_def transform_frame_def deduplicated_def raw_def
        fill_missing_def drop_duplicates_def row_key_def enumerate_eq_zip
        map_company_id_def COMPANY_ID_MAP_def)

lemma alphabet_symbols:
  "map Symbol alphabet_frame = [''GOOG'', ''GOOG'', ''GOOG'', ''GOOGL'', ''GOOGL'', ''GOOGL'']"
  by (simp add: alphabet_frame_def batch_alphabet_def
        transform_data_def transform_frame_def deduplicated_def raw_def
        fill_missing_def drop_duplicates_def row_key_def enumerate_eq_zip)

theorem window_by_company_not_symbol:
  "length (symbol_rows ''GOOGL'' alphabet_frame) = 3
   \<and> Symbol (alphabet_frame ! 4) = ''GOOGL''
   \<and> Symbol (alphabet_frame ! 5) = ''GOOGL''
   \<and> MovingAvg_col 5 alphabet_frame ! 4 = 102
   \<and> Trend_col alphabet_frame ! 5 = Fin 5"
proof -
  have "length (symbol_rows ''GOOGL'' alphabet_frame) =
          length (filter (\<lambda>x. x = ''GOOGL'') (map Symbol alphabet_frame))"
    by (simp add: symbol_rows_def filter_map o_def)
  then have a: "length (symbol_rows ''GOOGL'' alphabet_frame) = 3"
    unfolding alphabet_symbols by simp
  have l: "length alphabet_frame = 6"
    using arg_cong [OF alphabet_symbols, of length] by simp
  have "map Symbol alphabet_frame ! 4 = ''GOOGL''" "map Symbol alphabet_frame ! 5 = ''GOOGL''"
    unfolding alphabet_symbols by simp_all
  then have b: "Symbol (alphabet_frame ! 4) = ''GOOGL''" "Symbol (alphabet_frame ! 5) = ''GOOGL''"
    using l by simp_all
  have c: "MovingAvg_col 5 alphabet_frame ! 4 = 102"
    by (simp add: MovingAvg_col_def alphabet_close rolling_mean_def)
  have d: "Trend_col alphabet_frame ! 5 = Fin 5"
    by (simp add: Trend_col_def alphabet_close pct_change_def shifted_def fsub_def)
  from a b c d show ?thesis by blast
qed

theorem window_sentinel_witness:
  "4 < length alphabet_frame
   \<and> Suc (length (earlier_rows alphabet_frame 3)) < 5
   \<and> MovingAvg_col 5 alphabet_frame ! 3 = 0
   \<and> length (earlier_rows alphabet_frame 4) < 5
   \<and> Trend_col alphabet_frame ! 4 = Fin 0"
proof -
  have l: "length alphabet_frame = 6"
    using arg_cong [OF alphabet_symbols, of length] by simp
  have e: "length (earlier_rows alphabet_frame i) \<le> i" for i
    unfolding earlier_rows_def using l
    by (metis length_filter_le length_take min.cobounded2 order_trans)
  have h3: "3 < length alphabet_frame" and h4: "4 < length alphabet_frame"
    using l by simp_all
  have e3: "Suc (length (earlier_rows alphabet_frame 3)) < 5" using e [of 3] by simp
  have e4: "length (earlier_rows alphabet_frame 4) < 5" using e [of 4] by simp
  from window_sentinel [OF h3, of 5] e3 have a: "MovingAvg_col 5 alphabet_frame ! 3 = 0" by blast
  from window_sentinel [OF h4, of 5] e4 have b: "Trend_col alphabet_frame ! 4 = Fin 0" by blast
  from h4 e3 e4 a b show ?thesis by blast
qed

section \<open>The two daily-return means\<close>

lemma out_rows_from_batch:
  assumes "r \<in> set (transform_data gen wm batch)"
  shows "\<exists>t \<in> set batch. Symbol t = Symbol r \<and> map_company_id (CompanyName t) = CompanyID r"
proof -
  have "tick.truncate r \<in> set (map tick.truncate (transform_data gen wm batch))"
    using assms by simp
  then have "tick.truncate r \<in> set (map fill_missing batch)"
    using transform_data_subseq [of gen wm batch] list_emb_set [of "(=)"]
    by (metis (no_types, lifting))
  then obtain t where t: "t \<in> set batch" "tick.truncate r = fill_missing t" by auto
  have "Symbol (tick.truncate r) = Symbol r" "CompanyName (tick.truncate r) = CompanyName r"
    by simp_all
  with t(2) have e: "Symbol t = Symbol r" "CompanyName t = CompanyName r"
    by (simp_all add: fill_missing_def)
  have "CompanyID r = map_company_id (CompanyName r)"
    using transform_data_CompanyID [of gen wm batch] assms by (simp only: map_eq_conv)
  with t(1) e show ?thesis by auto
qed

lemma groupby_window_const_key:
  "groupby_window f [] (map (\<lambda>r. (Some k, v r)) rows) =
     map (\<lambda>i. f (rev (take (Suc i) (map v rows)))) [0..<length rows]"
  using groupby_window_single [where seen = "[]" and xs = "map (\<lambda>r. (Some k, v r)) rows"
      and k = k and f = f]
  by (simp add: take_map o_def)

lemma fillna0_daily_return: "fillna0 (daily_return c p) = daily_return c p"
  unfolding daily_return_def by (cases "fdiv (fsub (Fin c) (of_cell p)) (of_cell p)") simp_all

lemma symbol_rows_transform_data:
  "symbol_rows s (transform_data gen wm batch) =
     map out_row.truncate (symbol_rows s (transform_frame gen wm batch))"
  by (simp add: symbol_rows_def transform_data_def filter_map o_def)

lemma company_rows_symbol:
  assumes "one_symbol_per_company batch"
    and "r0 \<in> set (transform_data gen wm batch)" and "CompanyID r0 = Some k"
  shows "company_rows (transform_data gen wm batch) k =
           symbol_rows (Symbol r0) (transform_data gen wm batch)"
proof -
  obtain t0 where t0: "t0 \<in> set batch" "Symbol t0 = Symbol r0"
      "map_company_id (CompanyName t0) = Some k"
    using out_rows_from_batch [OF assms(2)] assms(3) by auto
  have "(CompanyID r = Some k) = (Symbol r = Symbol r0)"
    if rin: "r \<in> set (transform_data gen wm batch)" for r
  proof -
    obtain t where t: "t \<in> set batch" "Symbol t = Symbol r"
        "map_company_id (CompanyName t) = CompanyID r"
      using out_rows_from_batch [OF rin] by auto
    have "(Symbol t = Symbol t0) = (map_company_id (CompanyName t) = map_company_id (CompanyName t0))"
      using assms(1) t0(1,3) t(1) unfolding one_symbol_per_company_def by (metis option.distinct(1))
    then show ?thesis using t0 t by auto
  qed
  then show ?thesis unfolding company_rows_def symbol_rows_def by (auto intro: filter_cong)
qed

lemma DailyReturn_recomputed:
  assumes "\<forall>r \<in> set (symbol_rows s (transform_frame gen wm batch)). CompanyID r = Some k"
  shows "DailyReturn_col (map out_row.truncate (symbol_rows s (transform_frame gen wm batch))) =
           map DailyReturn (symbol_rows s (transform_frame gen wm batch))"
proof -
  let ?p = "symbol_rows s (transform_frame gen wm batch)"
  let ?P = "map out_row.truncate ?p"
  have c: "close_by_company ?P = map (\<lambda>r. (Some k, ClosePrice r)) ?p"
    using assms by (simp add: close_by_company_def)
  have "PreviousClosePrice_col ?P = map (\<lambda>i. shifted 1 (rev (take (Suc i) (map ClosePrice ?p)))) [0..<length ?p]"
    unfolding PreviousClosePrice_col_def c by (rule groupby_window_const_key)
  also have "\<dots> = map PreviousClosePrice ?p"
    unfolding frame_previous_close by (rule groupby_window_const_key [symmetric])
  finally have prev: "PreviousClosePrice_col ?P = map PreviousClosePrice ?p" .
  have "DailyReturn_col ?P = map (\<lambda>r. daily_return (ClosePrice r) (PreviousClosePrice r)) ?p"
    unfolding DailyReturn_col_def prev
    by (simp add: zip_map_map zip_same_conv_map o_def)
  also have "\<dots> = map DailyReturn ?p"
  proof (rule map_cong [OF refl])
    fix r assume "r \<in> set ?p"
    then have "r \<in> set (transform_frame gen wm batch)" by (simp add: symbol_rows_def)
    then show "daily_return (ClosePrice r) (PreviousClosePrice r) = DailyReturn r"
      by (rule frame_daily_return [symmetric])
  qed
  finally show ?thesis .
qed

lemma DailyReturn_stored:
  "DailyReturn_in (map out_row.truncate (symbol_rows s (transform_frame gen wm batch))) =
     map DailyReturn (symbol_rows s (transform_frame gen wm batch))"
proof -
  have "fillna0 (DailyReturn r) = DailyReturn r"
    if "r \<in> set (symbol_rows s (transform_frame gen wm batch))" for r
  proof -
    have "r \<in> set (transform_frame gen wm batch)" using that by (simp add: symbol_rows_def)
    then show ?thesis by (simp add: frame_daily_return fillna0_daily_return)
  qed
  then show ?thesis by (simp add: DailyReturn_in_def o_def)
qed

lemma facets_agree_on_company:
  assumes "one_symbol_per_company batch"
    and "k \<in> set (group_keys (CompanyID_col (transform_data gen wm batch)))"
  shows "DailyReturn_col (company_rows (transform_data gen wm batch) k) =
           DailyReturn_in (company_rows (transform_data gen wm batch) k)"
proof -
  let ?out = "transform_data gen wm batch"
  obtain r0 where r0: "r0 \<in> set ?out" "CompanyID r0 = Some k"
    using assms(2) by (auto simp: set_group_keys CompanyID_col_def)
  let ?s = "Symbol r0"
  let ?p = "symbol_rows ?s (transform_frame gen wm batch)"
  have P: "company_rows ?out k = map out_row.truncate ?p"
    using company_rows_symbol [OF assms(1) r0] by (simp add: symbol_rows_transform_data)
  have "\<forall>r \<in> set (map out_row.truncate ?p). CompanyID r = Some k"
    unfolding P [symmetric] by (simp add: company_rows_def)
  then have a: "\<forall>r \<in> set ?p. CompanyID r = Some k" by simp
  show ?thesis unfolding P DailyReturn_recomputed [OF a] DailyReturn_stored ..
qed

text \<open>
  Claim C8, as the code has it. Facet 1 averages the \<open>DailyReturn\<close> column as read from
  the file; facet 3 first overwrites the column with a return recomputed within each
  CompanyID and averages that. On a frame written by \<open>transform_data\<close> from a batch in
  which every resolved company has its one symbol, the two columns agree on every company,
  and the merged output carries two equal means per company.
\<close>

theorem daily_return_facets_agree:
  assumes "one_symbol_per_company batch"
  shows "map DailyReturn_y (map snd (aggregate_data (transform_data gen wm batch))) =
         map DailyReturn_x (map snd (aggregate_data (transform_data gen wm batch)))"
  unfolding aggregate_data_per_company
  by (simp add: o_def company_joined_def facets_agree_on_company [OF assms])


theorem daily_return_facets_agree_witness:
  "one_symbol_per_company batch_unknown
   \<and> map fst (aggregate_data (transform_data uuid0 None batch_unknown)) = [1, 2]
   \<and> map DailyReturn_y (map snd (aggregate_data (transform_data uuid0 None batch_unknown))) =
     map DailyReturn_x (map snd (aggregate_data (transform_data uuid0 None batch_unknown)))"
proof -
  have h: "one_symbol_per_company batch_unknown"
    by (simp add: one_symbol_per_company_def batch_unknown_def raw_def map_company_id_def
        COMPANY_ID_MAP_def)
  have "CompanyID_col (transform_data uuid0 None batch_unknown) = [Some 1, None, Some 2, Some 1]"
    by (simp add: CompanyID_col_def transform_data_def transform_frame_def deduplicated_def
        batch_unknown_def raw_def fill_missing_def drop_duplicates_def row_key_def enumerate_eq_zip
        map_company_id_def COMPANY_ID_MAP_def)
  then have k: "map fst (aggregate_data (transform_data uuid0 None batch_unknown)) = [1, 2]"
    by (simp add: aggregate_data_keys group_keys_def List.map_filter_def)
  from h k daily_return_facets_agree [OF h, of uuid0 None] show ?thesis by blast
qed

text \<open>
  The claim as the specification words it, for every aggregation input, fails on the frame
  of a company listed under two symbols: the stored returns are both 0.0 (each row is the
  first of its symbol) while the recomputed return of the second row is 0.1.
\<close>

theorem daily_return_facets_differ:
  "map fst (aggregate_data two_tickers_frame) = [3]
   \<and> map DailyReturn_x (map snd (aggregate_data two_tickers_frame)) = [Fin 0]
   \<and> map DailyReturn_y (map snd (aggregate_data two_tickers_frame)) = [Fin (1 / 20)]"
proof -
  have c: "map (\<lambda>r. (CompanyID r, ClosePrice r, DailyReturn r)) two_tickers_frame =
             [(Some 3, 100, Fin 0), (Some 3, 110, Fin 0)]"
    by (simp add: two_tickers_frame_def transform_data_def transform_frame_def deduplicated_def
        batch_two_tickers_def raw_def fill_missing_def drop_duplicates_def row_key_def
        enumerate_eq_zip map_company_id_def COMPANY_ID_MAP_def shifted_def daily_return_None)
  then obtain r1 r2 where r: "two_tickers_frame = [r1, r2]"
      "CompanyID r1 = Some 3" "ClosePrice r1 = 100" "DailyReturn r1 = Fin 0"
      "CompanyID r2 = Some 3" "ClosePrice r2 = 110" "DailyReturn r2 = Fin 0"
    by auto
  have k: "group_keys (CompanyID_col two_tickers_frame) = [3]"
    by (simp add: r CompanyID_col_def group_keys_def List.map_filter_def)
  have g: "company_rows two_tickers_frame 3 = [r1, r2]"
    by (simp add: r company_rows_def)
  have x: "DailyReturn_in [r1, r2] = [Fin 0, Fin 0]"
    by (simp add: DailyReturn_in_def r)
  have y: "DailyReturn_col [r1, r2] = [Fin 0, Fin (1 / 10)]"
    by (simp add: DailyReturn_col_def PreviousClosePrice_col_def close_by_company_def r
        shifted_def daily_return_None daily_return_Some)
  have m: "mean [Fin 0, Fin 0] = Fin 0" "mean [Fin 0, Fin (1 / 10)] = Fin (1 / 20)"
    by (simp_all add: mean_def)
  show ?thesis
    by (simp add: aggregate_data_per_company k g company_joined_def x y m)
qed

end
